theory Spec2Isabelle
  imports Main
begin

section \<open>The node size debugger (tool/node_size_debugger.cpp)\<close>

subsection \<open>Data model\<close>

text \<open>
  The element types of the tuple \<open>debuggers\<close>, one tag per probed container.
\<close>

datatype debugger =
    debug_forward_list | debug_list
  | debug_set | debug_multiset | debug_unordered_set | debug_unordered_multiset
  | debug_map | debug_multimap | debug_unordered_map | debug_unordered_multimap

text \<open>
  \<open>debug_result\<close> is declared in node_size_debugger.hpp; the serializers read its two
  members only: the name, and the (alignment, base node size) pairs in iteration order.
\<close>

record debug_result =
  container_name :: string
  node_sizes :: "(nat \<times> nat) list"

text \<open>
  What the program is given from outside: \<open>debug\<close> (the measurement, from the header),
  the \<open>VERSION\<close> macro, and whether \<open>std::ofstream::open\<close> succeeds on a path.
\<close>

record platform =
  debug :: "debugger \<Rightarrow> debug_result"
  VERSION :: string
  opens :: "string \<Rightarrow> bool"

text \<open>
  An output stream is identified by the buffer it writes to: that of \<open>std::cout\<close>,
  that of \<open>std::cerr\<close>, or that of the file opened under a path.
\<close>

datatype stream = Cout | Cerr | Ofstream string

text \<open>A call of one of the three members every serializer has.\<close>

datatype call = Prefix | Emit debug_result | Suffix

text \<open>
  The observable state: the bytes written to the two standard streams, the contents of
  the files, and the history of serializer member calls (kept for the claims about the
  order of calls; no code reads it).
\<close>

record world =
  cout :: string
  cerr :: string
  files :: "string \<rightharpoonup> string"
  calls :: "call list"

definition put :: "stream \<Rightarrow> string \<Rightarrow> world \<Rightarrow> world" where
  "put out s w =
    (case out of
       Cout \<Rightarrow> w\<lparr>cout := cout w @ s\<rparr>
     | Cerr \<Rightarrow> w\<lparr>cerr := cerr w @ s\<rparr>
     | Ofstream p \<Rightarrow>
         w\<lparr>files := (files w)(p \<mapsto> (case files w p of None \<Rightarrow> s | Some c \<Rightarrow> c @ s))\<rparr>)"

definition called :: "call \<Rightarrow> world \<Rightarrow> world" where
  "called c w = w\<lparr>calls := calls w @ [c]\<rparr>"

subsection \<open>Formatted output of numbers\<close>

definition digit_char :: "nat \<Rightarrow> char" where
  "digit_char d = ''0123456789'' ! d"

text \<open>\<open>operator<<\<close> on a \<open>std::size_t\<close>: the decimal digits, no sign, no leading zero.\<close>

fun dec :: "nat \<Rightarrow> string" where
  "dec n = (if n < 10 then [digit_char n] else dec (n div 10) @ [digit_char (n mod 10)])"

declare dec.simps [simp del]

text \<open>
  \<open>std::setw(n)\<close> before one formatted output, with the stream's initial fill character
  (a space) and initial adjustment (fill characters go before the text).
\<close>

definition setw :: "nat \<Rightarrow> string \<Rightarrow> string" where
  "setw n s = replicate (n - length s) (CHR '' '') @ s"

subsection \<open>The three serializers\<close>

definition exe_name :: string where
  "exe_name = ''foonathan_memory_node_size_debugger''"

definition exe_spaces :: string where
  "exe_spaces = replicate (length exe_name) (CHR '' '')"

definition newline :: string where
  "newline = [CHR 0x0A]"

definition simple_emit :: "debug_result \<Rightarrow> string" where
  "simple_emit result =
     container_name result @ '':'' @ newline
     @ concat (map (\<lambda>(first, second).
         [CHR 0x09] @ dec first @ ''='' @ dec second @ newline) (node_sizes result))"

definition verbose_emit :: "debug_result \<Rightarrow> string" where
  "verbose_emit result =
     ''For container '' @ [CHR 0x27] @ container_name result @ [CHR 0x27] @ '':'' @ newline
     @ concat (map (\<lambda>(first, second).
         [CHR 0x09] @ ''With an alignment of '' @ setw 2 (dec first)
         @ '' is the base node size '' @ setw 2 (dec second) @ ''.'' @ newline)
         (node_sizes result))"

definition code_prefix :: string where
  "code_prefix =
     ''// The following section was autogenerated by '' @ exe_name @ newline
     @ ''//=== BEGIN AUTOGENERATED SECTION ===//'' @ newline @ newline"

definition code_suffix :: string where
  "code_suffix = ''//=== END AUTOGENERATED SECTION ===//'' @ newline"

definition tab :: "nat \<Rightarrow> string" where
  "tab tab_width = (if tab_width = 0 then [CHR 0x09] else replicate tab_width (CHR '' ''))"

definition struct_name :: "string \<Rightarrow> string" where
  "struct_name name = name @ ''_node_size''"

definition alignment :: string where
  "alignment = ''FOONATHAN_ALIGNOF(T)''"

definition code_specialization :: "nat \<Rightarrow> string \<Rightarrow> nat \<times> nat \<Rightarrow> string" where
  "code_specialization tab_width name pair =
     newline
     @ tab tab_width @ ''template <>'' @ newline
     @ tab tab_width @ ''struct '' @ struct_name name @ ''<'' @ dec (fst pair) @ ''>'' @ newline
     @ tab tab_width @ '': std::integral_constant<std::size_t, '' @ dec (snd pair) @ ''>''
       @ newline
     @ tab tab_width @ ''{};'' @ newline"

definition code_emit :: "nat \<Rightarrow> debug_result \<Rightarrow> string" where
  "code_emit tab_width result =
     ''namespace detail'' @ newline @ ''{'' @ newline
     @ tab tab_width @ ''template <std::size_t Alignment>'' @ newline
     @ tab tab_width @ ''struct '' @ struct_name (container_name result) @ '';'' @ newline
     @ concat (map (code_specialization tab_width (container_name result)) (node_sizes result))
     @ ''} // namespace detail'' @ newline @ newline
     @ ''template <typename T>'' @ newline
     @ ''struct '' @ struct_name (container_name result) @ newline
     @ '': std::integral_constant<std::size_t,'' @ newline
     @ ''       detail::'' @ struct_name (container_name result) @ ''<'' @ alignment
       @ ''>::value + sizeof(T)>'' @ newline
     @ ''{};'' @ newline @ newline"

text \<open>A serializer is its output stream and, for the code serializer, the tab width.\<close>

datatype serializer =
    simple_serializer stream
  | verbose_serializer stream
  | code_serializer stream nat

fun out :: "serializer \<Rightarrow> stream" where
  "out (simple_serializer s) = s"
| "out (verbose_serializer s) = s"
| "out (code_serializer s tab_width) = s"

fun prefix_text :: "serializer \<Rightarrow> string" where
  "prefix_text (simple_serializer s) = []"
| "prefix_text (verbose_serializer s) = []"
| "prefix_text (code_serializer s tab_width) = code_prefix"

fun emit_text :: "serializer \<Rightarrow> debug_result \<Rightarrow> string" where
  "emit_text (simple_serializer s) result = simple_emit result"
| "emit_text (verbose_serializer s) result = verbose_emit result"
| "emit_text (code_serializer s tab_width) result = code_emit tab_width result"

fun suffix_text :: "serializer \<Rightarrow> string" where
  "suffix_text (simple_serializer s) = []"
| "suffix_text (verbose_serializer s) = []"
| "suffix_text (code_serializer s tab_width) = code_suffix"

text \<open>
  The three members, for whichever serializer: each appends its text to the serializer's
  stream, and the call is noted in the history.
\<close>

definition prefix :: "serializer \<Rightarrow> world \<Rightarrow> world" where
  "prefix ser w = put (out ser) (prefix_text ser) (called Prefix w)"

definition call_operator :: "serializer \<Rightarrow> debug_result \<Rightarrow> world \<Rightarrow> world" where
  "call_operator ser result w = put (out ser) (emit_text ser result) (called (Emit result) w)"

definition suffix :: "serializer \<Rightarrow> world \<Rightarrow> world" where
  "suffix ser w = put (out ser) (suffix_text ser) (called Suffix w)"

subsection \<open>The driver\<close>

definition debuggers :: "debugger list" where
  "debuggers =
     [debug_forward_list, debug_list,
      debug_set, debug_multiset, debug_unordered_set, debug_unordered_multiset,
      debug_map, debug_multimap, debug_unordered_map, debug_unordered_multimap]"

text \<open>
  The pack expansion inside the braced initializer of \<open>dummy\<close> is evaluated left to
  right, one serializer call per element of the tuple.
\<close>

fun serialize_impl :: "platform \<Rightarrow> serializer \<Rightarrow> debugger list \<Rightarrow> world \<Rightarrow> world" where
  "serialize_impl P ser [] w = w"
| "serialize_impl P ser (d # ds) w = serialize_impl P ser ds (call_operator ser (debug P d) w)"

definition serialize :: "platform \<Rightarrow> serializer \<Rightarrow> world \<Rightarrow> world" where
  "serialize P ser w = suffix ser (serialize_impl P ser debuggers (prefix ser w))"

definition print_help :: "stream \<Rightarrow> world \<Rightarrow> world" where
  "print_help s w =
     put s (''Usage: '' @ exe_name @ '' [--version][--help]'' @ newline
       @ ''       '' @ exe_spaces @ '' [--simple][--verbose]'' @ newline
       @ ''       '' @ exe_spaces @ '' [--code [-t digit] [outputfile]]'' @ newline
       @ ''Obtains information about the internal node sizes of the STL containers.''
       @ newline
       @ newline
       @ ''   --simple'' @ [CHR 0x09]
       @ ''prints node sizes in the form '' @ [CHR 0x27] @ ''alignment=base-node-size''
       @ [CHR 0x27] @ newline
       @ ''   --verbose'' @ [CHR 0x09] @ ''prints node sizes in a more verbose form'' @ newline
       @ ''   --code'' @ [CHR 0x09] @ ''generates C++ code to obtain the node size'' @ newline
       @ ''   --help'' @ [CHR 0x09] @ ''display this help and exit'' @ newline
       @ ''   --version'' @ [CHR 0x09] @ ''output version information and exit'' @ newline
       @ newline
       @ ''Options for code generation: '' @ newline
       @ ''   -t'' @ [CHR 0x09] @ ''followed by single digit specifying tab width, 0 uses ''
       @ [CHR 0x27, CHR 0x5C] @ ''t'' @ [CHR 0x27] @ newline
       @ newline
       @ ''The base node size is the size of the node without the storage for the value type.''
       @ newline
       @ ''Add '' @ [CHR 0x27] @ ''sizeof(value_type)'' @ [CHR 0x27]
       @ '' to the base node size for the appropriate alignment to get the whole size.''
       @ newline
       @ ''With no options prints base node sizes of all containers in a simple manner.''
       @ newline) w"

definition print_version :: "platform \<Rightarrow> stream \<Rightarrow> world \<Rightarrow> world" where
  "print_version P s w = put s (exe_name @ '' version '' @ VERSION P @ newline) w"

definition try_help :: string where
  "try_help = ''Try '' @ [CHR 0x27] @ exe_name @ '' --help'' @ [CHR 0x27]
     @ '' for more information.'' @ newline"

definition print_invalid_option :: "stream \<Rightarrow> string \<Rightarrow> world \<Rightarrow> int \<times> world" where
  "print_invalid_option s option w =
     (2, put s (exe_name @ '': invalid option -- '' @ [CHR 0x27]
                @ dropWhile (\<lambda>c. c = CHR ''-'') option @ [CHR 0x27] @ newline
                @ try_help) w)"

definition print_invalid_argument :: "stream \<Rightarrow> string \<Rightarrow> world \<Rightarrow> int \<times> world" where
  "print_invalid_argument s option w =
     (2, put s (exe_name @ '': invalid argument for option -- '' @ [CHR 0x27]
                @ option @ [CHR 0x27] @ newline
                @ try_help) w)"

definition isdigit :: "char \<Rightarrow> bool" where
  "isdigit c = (c \<in> set ''0123456789'')"

text \<open>
  The test on the token after \<open>-t\<close>: it exists, its first character is a digit and its
  second one is the terminator.
\<close>

definition single_digit :: "string \<Rightarrow> bool" where
  "single_digit s = (case s of [] \<Rightarrow> False | c # cs \<Rightarrow> isdigit c \<and> cs = [])"

definition digit_value :: "string \<Rightarrow> nat" where
  "digit_value s = of_char (hd s) - 48"

text \<open>
  The loop over \<open>argv[2..]\<close> in the \<open>--code\<close> branch. Its variables are \<open>tab_width\<close>
  and \<open>file\<close> (the path it is open on, if it is open); it ends with the name to hand to
  \<open>print_invalid_argument\<close> or with the final variables. Opening a file for output
  truncates it.
\<close>

fun code_args ::
  "platform \<Rightarrow> string list \<Rightarrow> nat \<Rightarrow> string option \<Rightarrow> world
     \<Rightarrow> (string + nat \<times> string option) \<times> world" where
  "code_args P [] tab_width file w = (Inr (tab_width, file), w)"
| "code_args P (cur # rest) tab_width file w =
     (if cur = ''-t'' then
        (case rest of
           [] \<Rightarrow> (Inl ''-t'', w)
         | d # rest' \<Rightarrow>
             if single_digit d then code_args P rest' (digit_value d) file w
             else (Inl ''-t'', w))
      else if file = None then
        (if opens P cur
         then code_args P rest tab_width (Some cur) (w\<lparr>files := (files w)(cur \<mapsto> [])\<rparr>)
         else (Inl ''outputfile'', w))
      else (Inl ''--code'', w))"

definition main :: "platform \<Rightarrow> string list \<Rightarrow> world \<Rightarrow> int \<times> world" where
  "main P argv w =
     (if length argv \<le> 1 \<or> argv ! 1 = ''--simple'' then
        (0, serialize P (simple_serializer Cout) w)
      else if argv ! 1 = ''--verbose'' then
        (0, serialize P (verbose_serializer Cout) w)
      else if argv ! 1 = ''--code'' then
        (case code_args P (drop 2 argv) 4 None w of
           (Inl option, w') \<Rightarrow> print_invalid_argument Cerr option w'
         | (Inr (tab_width, file), w') \<Rightarrow>
             (0, serialize P
                   (code_serializer (case file of None \<Rightarrow> Cout | Some p \<Rightarrow> Ofstream p)
                      tab_width) w'))
      else if argv ! 1 = ''--help'' then (0, print_help Cout w)
      else if argv ! 1 = ''--version'' then (0, print_version P Cout w)
      else print_invalid_option Cerr (argv ! 1) w)"

subsection \<open>Observations and sample inputs\<close>

text \<open>The bytes a stream has received so far.\<close>

definition written :: "stream \<Rightarrow> world \<Rightarrow> string" where
  "written s w =
     (case s of Cout \<Rightarrow> cout w | Cerr \<Rightarrow> cerr w
      | Ofstream p \<Rightarrow> (case files w p of None \<Rightarrow> [] | Some c \<Rightarrow> c))"

text \<open>
  The lines of a text: a line ends at each newline character, and characters after the
  last newline form a last line. \<open>unlines\<close> goes the other way and ends every line.
\<close>

definition add_char :: "char \<Rightarrow> string list \<Rightarrow> string list" where
  "add_char c ls =
     (if c = CHR 0x0A then [] # ls
      else (case ls of [] \<Rightarrow> [[c]] | l # ls' \<Rightarrow> (c # l) # ls'))"

definition lines_of :: "string \<Rightarrow> string list" where
  "lines_of s = foldr add_char s []"

definition unlines :: "string list \<Rightarrow> string" where
  "unlines ls = concat (map (\<lambda>l. l @ [CHR 0x0A]) ls)"

text \<open>The white space a line starts with.\<close>

definition indent_of :: "string \<Rightarrow> string" where
  "indent_of l = takeWhile (\<lambda>c. c = CHR '' '' \<or> c = CHR 0x09) l"

text \<open>The number a decimal numeral stands for.\<close>

definition num_of :: "string \<Rightarrow> nat" where
  "num_of s = foldl (\<lambda>v c. 10 * v + (of_char c - 48)) 0 s"

text \<open>A result with one alignment below ten and one above.\<close>

definition sample_result :: debug_result where
  "sample_result = \<lparr>container_name = ''list'', node_sizes = [(8, 16), (16, 32)]\<rparr>"

text \<open>
  A platform and a starting world to run the program on: two alignments per container,
  one path that can be opened, and a file with old contents under it.
\<close>

definition sample_platform :: platform where
  "sample_platform = \<lparr>debug = (\<lambda>d. \<lparr>container_name = (if d = debug_list then ''list'' else ''map''),
                          node_sizes = [(8, 16), (16, 32)]\<rparr>),
          VERSION = ''0.7'',
          opens = (\<lambda>p. p = ''out.hpp'')\<rparr>"

definition sample_world :: world where
  "sample_world = \<lparr>cout = [], cerr = [], files = [''out.hpp'' \<mapsto> ''old''], calls = []\<rparr>"

section \<open>Properties\<close>

subsection \<open>Auxiliary facts\<close>

lemma calls_put [simp]: "calls (put s t w) = calls w"
  by (simp add: put_def split: stream.splits)

lemma written_put [simp]: "written s (put s t w) = written s w @ t"
  by (simp add: put_def written_def split: stream.splits option.splits)

lemma calls_called [simp]: "calls (called c w) = calls w @ [c]"
  by (simp add: called_def)

lemma written_called [simp]: "written s (called c w) = written s w"
  by (simp add: called_def written_def split: stream.splits)


lemma written_serialize_impl:
  "written (out ser) (serialize_impl P ser ds w)
     = written (out ser) w @ concat (map (\<lambda>d. emit_text ser (debug P d)) ds)"
  by (induction ds arbitrary: w) (simp_all add: call_operator_def)


lemma written_serialize:
  "written (out ser) (serialize P ser w)
     = written (out ser) w @ prefix_text ser
       @ concat (map (\<lambda>d. emit_text ser (debug P d)) debuggers) @ suffix_text ser"
  by (simp add: serialize_def prefix_def suffix_def written_serialize_impl)

text \<open>What the argument loop can do to the world: nothing, or truncate the one file it opens.\<close>

lemma code_args_world:
  "code_args P args tw fl w = (res, w') \<Longrightarrow>
     calls w' = calls w \<and> cout w' = cout w \<and> cerr w' = cerr w
     \<and> (\<forall>p. files w' p = files w p \<or> files w' p = Some [])"
  by (induction P args tw fl w rule: code_args.induct)
     (auto split: if_splits list.splits)

lemma code_args_result:
  "code_args P args tw fl w = (Inr (tw', fl'), w') \<Longrightarrow>
     (case fl of
        Some p \<Rightarrow> fl' = fl \<and> w' = w
      | None \<Rightarrow> (case fl' of None \<Rightarrow> w' = w
                 | Some p \<Rightarrow> opens P p \<and> w' = w\<lparr>files := (files w)(p \<mapsto> [])\<rparr>))"
  by (induction P args tw fl w rule: code_args.induct)
     (auto split: if_splits list.splits option.splits)

lemma code_args_append:
  "code_args P pre tw fl w = (Inr (tw', fl'), w') \<Longrightarrow>
     code_args P (pre @ rest2) tw fl w = code_args P rest2 tw' fl' w'"
  by (induction P pre tw fl w rule: code_args.induct)
     (auto split: if_splits list.splits)


lemma single_digit_iff:
  "single_digit d \<longleftrightarrow>
     d \<in> (\<lambda>c. [c]) ` set ''0123456789''"
  by (cases d) (auto simp: single_digit_def isdigit_def)

lemma takeWhile_eq_replicate:
  "takeWhile (\<lambda>c. c = a) xs = replicate (length (takeWhile (\<lambda>c. c = a) xs)) a"
  by (induction xs) simp_all


subsection \<open>Lines and numerals\<close>

lemma lines_of_line:
  "CHR 0x0A \<notin> set l \<Longrightarrow> lines_of (l @ CHR 0x0A # rest) = l # lines_of rest"
  by (induction l) (auto simp: lines_of_def add_char_def)

lemma lines_of_unlines_append:
  "\<forall>l \<in> set ls. CHR 0x0A \<notin> set l \<Longrightarrow> lines_of (unlines ls @ rest) = ls @ lines_of rest"
  by (induction ls) (simp_all add: unlines_def lines_of_line)

lemma lines_of_Nil [simp]: "lines_of [] = []"
  by (simp add: lines_of_def)

lemma lines_of_unlines:
  "\<forall>l \<in> set ls. CHR 0x0A \<notin> set l \<Longrightarrow> lines_of (unlines ls) = ls"
  using lines_of_unlines_append [of ls "[]"] by simp

lemma unlines_append: "unlines (xs @ ys) = unlines xs @ unlines ys"
  by (simp add: unlines_def)

lemma unlines_concat: "unlines (concat xss) = concat (map unlines xss)"
  by (induction xss) (simp_all add: unlines_append, simp add: unlines_def)

lemma digit_char_digits: "d < 10 \<Longrightarrow> digit_char d \<in> set ''0123456789''"
  unfolding digit_char_def by (rule nth_mem) simp

lemma dec_digits: "set (dec n) \<subseteq> set ''0123456789''"
proof (induction n rule: dec.induct)
  case (1 n)
  show ?case
  proof (cases "n < 10")
    case True
    then show ?thesis using digit_char_digits [of n] by (subst dec.simps) simp
  next
    case False
    then show ?thesis using 1 digit_char_digits [of "n mod 10"]
      by (subst dec.simps) simp
  qed
qed

lemma dec_no_newline: "CHR 0x0A \<notin> set (dec n)"
  using dec_digits [of n] by auto

lemma dec_small: "n < 10 \<Longrightarrow> dec n = [digit_char n]"
  by (subst dec.simps) simp

lemma dec_not_Nil: "dec n \<noteq> []"
  by (subst dec.simps) simp

lemma dec_large: "10 \<le> n \<Longrightarrow> 2 \<le> length (dec n)"
  using dec_not_Nil [of "n div 10"]
  by (subst dec.simps) (cases "dec (n div 10)"; simp)

lemma tab_no_newline: "CHR 0x0A \<notin> set (tab tw)"
  by (simp add: tab_def)

lemma tab_Cons: "\<exists>c cs. tab tw = c # cs \<and> (c = CHR '' '' \<or> c = CHR 0x09)"
  by (cases tw) (simp_all add: tab_def)

lemma code_specialization_unlines:
  "code_specialization tw name p
     = unlines [[], tab tw @ ''template <>'',
                tab tw @ ''struct '' @ name @ ''_node_size<'' @ dec (fst p) @ ''>'',
                tab tw @ '': std::integral_constant<std::size_t, '' @ dec (snd p) @ ''>'',
                tab tw @ ''{};'']"
  by (simp add: code_specialization_def unlines_def newline_def struct_name_def)

lemma concat_code_specialization:
  "concat (map (code_specialization tw name) ps)
     = unlines (concat (map (\<lambda>p.
              [[], tab tw @ ''template <>'',
               tab tw @ ''struct '' @ name @ ''_node_size<'' @ dec (fst p) @ ''>'',
               tab tw @ '': std::integral_constant<std::size_t, '' @ dec (snd p) @ ''>'',
               tab tw @ ''{};'']) ps))"
proof -
  have "code_specialization tw name = (\<lambda>p. unlines
              [[], tab tw @ ''template <>'',
               tab tw @ ''struct '' @ name @ ''_node_size<'' @ dec (fst p) @ ''>'',
               tab tw @ '': std::integral_constant<std::size_t, '' @ dec (snd p) @ ''>'',
               tab tw @ ''{};''])"
    by (rule ext) (rule code_specialization_unlines)
  then show ?thesis
    by (simp only: unlines_concat map_map o_def)
qed

lemma code_emit_unlines:
  "code_emit tw r
     = unlines
         ([''namespace detail'', ''{'',
           tab tw @ ''template <std::size_t Alignment>'',
           tab tw @ ''struct '' @ container_name r @ ''_node_size;'']
          @ concat (map (\<lambda>p.
              [[], tab tw @ ''template <>'',
               tab tw @ ''struct '' @ container_name r @ ''_node_size<'' @ dec (fst p) @ ''>'',
               tab tw @ '': std::integral_constant<std::size_t, '' @ dec (snd p) @ ''>'',
               tab tw @ ''{};'']) (node_sizes r))
          @ [''} // namespace detail'', [],
             ''template <typename T>'',
             ''struct '' @ container_name r @ ''_node_size'',
             '': std::integral_constant<std::size_t,'',
             ''       detail::'' @ container_name r
               @ ''_node_size<FOONATHAN_ALIGNOF(T)>::value + sizeof(T)>'',
             ''{};'', []])"
proof -
  note c = concat_code_specialization [of tw "container_name r" "node_sizes r"]
  show ?thesis
    unfolding code_emit_def c unlines_append
    by (simp add: unlines_def newline_def struct_name_def alignment_def)
qed

lemma lines_of_no_newline: "l \<in> set (lines_of s) \<Longrightarrow> CHR 0x0A \<notin> set l"
proof (induction s arbitrary: l)
  case Nil
  then show ?case by simp
next
  case (Cons c s)
  have step: "lines_of (c # s) = add_char c (lines_of s)"
    by (simp add: lines_of_def)
  show ?case
  proof (cases "c = CHR 0x0A")
    case True
    with Cons step show ?thesis by (auto simp: add_char_def)
  next
    case False
    with Cons step show ?thesis
      by (cases "lines_of s") (auto simp: add_char_def)
  qed
qed

lemma code_emit_lines:
  assumes "CHR 0x0A \<notin> set (container_name r)"
  shows "lines_of (code_emit tw r)
     = [''namespace detail'', ''{'',
           tab tw @ ''template <std::size_t Alignment>'',
           tab tw @ ''struct '' @ container_name r @ ''_node_size;'']
          @ concat (map (\<lambda>p.
              [[], tab tw @ ''template <>'',
               tab tw @ ''struct '' @ container_name r @ ''_node_size<'' @ dec (fst p) @ ''>'',
               tab tw @ '': std::integral_constant<std::size_t, '' @ dec (snd p) @ ''>'',
               tab tw @ ''{};'']) (node_sizes r))
          @ [''} // namespace detail'', [],
             ''template <typename T>'',
             ''struct '' @ container_name r @ ''_node_size'',
             '': std::integral_constant<std::size_t,'',
             ''       detail::'' @ container_name r
               @ ''_node_size<FOONATHAN_ALIGNOF(T)>::value + sizeof(T)>'',
             ''{};'', []]"
  unfolding code_emit_unlines
  by (rule lines_of_unlines) (use assms in \<open>auto simp: tab_no_newline dec_no_newline\<close>)

lemma code_emit_roundtrip:
  assumes "CHR 0x0A \<notin> set (container_name r)"
  shows "unlines (lines_of (code_emit tw r)) = code_emit tw r"
  unfolding code_emit_lines [OF assms] by (simp only: code_emit_unlines)

lemma digit_char_value: "d < 10 \<Longrightarrow> (of_char (digit_char d) :: nat) = 48 + d"
proof -
  assume "d < 10"
  then have "d \<in> {0, 1, 2, 3, 4, 5, 6, 7, 8, 9}"
    by auto
  then show ?thesis
    by (auto simp: digit_char_def)
qed

lemma num_of_snoc: "num_of (s @ [c]) = 10 * num_of s + (of_char c - 48)"
  by (simp add: num_of_def)

lemma num_of_dec: "num_of (dec n) = n"
proof (induction n rule: dec.induct)
  case (1 n)
  show ?case
  proof (cases "n < 10")
    case True
    then show ?thesis
      using digit_char_value [of n] by (simp add: dec_small num_of_def)
  next
    case False
    then have "dec n = dec (n div 10) @ [digit_char (n mod 10)]"
      by (subst dec.simps) simp
    then show ?thesis
      using 1 [OF False] digit_char_value [of "n mod 10"] by (simp add: num_of_snoc)
  qed
qed

subsection \<open>The layout of the generated code\<close>

lemma indent_of_tab:
  "c \<noteq> CHR '' '' \<Longrightarrow> c \<noteq> CHR 0x09 \<Longrightarrow> indent_of (tab tw @ c # cs) = tab tw"
  by (simp add: indent_of_def tab_def takeWhile_append)

lemma template_line_not_detail:
  "tab tw @ ''template <>'' \<noteq> ''       detail::'' @ x"
proof
  assume eq: "tab tw @ ''template <>'' = ''       detail::'' @ x"
  have "indent_of (tab tw @ ''template <>'') = tab tw"
    using indent_of_tab [of "CHR ''t''" tw "''emplate <>''"] by simp
  moreover have "indent_of (''       detail::'' @ x) = ''       ''"
    by (simp add: indent_of_def)
  ultimately have "tab tw = ''       ''"
    using eq by simp
  with eq show False by simp
qed

lemma count_list_concat_map:
  "count_list (concat (map f ps)) y = sum_list (map (\<lambda>p. count_list (f p) y) ps)"
  by (induction ps) simp_all

lemma sum_list_const_one: "sum_list (map (\<lambda>p. Suc 0) ps) = length ps"
  by (induction ps) simp_all

lemma count_template_lines:
  assumes "CHR 0x0A \<notin> set (container_name r)"
  shows "count_list (lines_of (code_emit tw r)) (tab tw @ ''template <>'') = length (node_sizes r)"
proof -
  obtain c cs where t: "tab tw = c # cs" "c = CHR '' '' \<or> c = CHR 0x09"
    using tab_Cons by blast
  have group: "count_list
      [[], tab tw @ ''template <>'',
       tab tw @ ''struct '' @ container_name r @ ''_node_size<'' @ dec (fst p) @ ''>'',
       tab tw @ '': std::integral_constant<std::size_t, '' @ dec (snd p) @ ''>'',
       tab tw @ ''{};''] (tab tw @ ''template <>'') = Suc 0" for p
    by (simp add: t(1))
  have head: "count_list
      [''namespace detail'', ''{'',
           tab tw @ ''template <std::size_t Alignment>'',
           tab tw @ ''struct '' @ container_name r @ ''_node_size;'']
      (tab tw @ ''template <>'') = 0"
    using t by auto
  have foot: "count_list
      [''} // namespace detail'', [],
             ''template <typename T>'',
             ''struct '' @ container_name r @ ''_node_size'',
             '': std::integral_constant<std::size_t,'',
             ''       detail::'' @ container_name r
               @ ''_node_size<FOONATHAN_ALIGNOF(T)>::value + sizeof(T)>'',
             ''{};'', []]
      (tab tw @ ''template <>'') = 0"
    using t template_line_not_detail [of tw "container_name r
               @ ''_node_size<FOONATHAN_ALIGNOF(T)>::value + sizeof(T)>''"]
    by auto
  show ?thesis
    unfolding code_emit_lines [OF assms] count_list_append count_list_concat_map head foot group
    by (simp add: sum_list_const_one)
qed

lemma count_namespace_lines:
  assumes "CHR 0x0A \<notin> set (container_name r)"
  shows "count_list (lines_of (code_emit tw r)) ''namespace detail'' = 1"
proof -
  obtain c cs where t: "tab tw = c # cs" "c = CHR '' '' \<or> c = CHR 0x09"
    using tab_Cons by blast
  have group: "count_list
      [[], tab tw @ ''template <>'',
       tab tw @ ''struct '' @ container_name r @ ''_node_size<'' @ dec (fst p) @ ''>'',
       tab tw @ '': std::integral_constant<std::size_t, '' @ dec (snd p) @ ''>'',
       tab tw @ ''{};''] ''namespace detail'' = 0" for p
    using t by auto
  have head: "count_list
      [''namespace detail'', ''{'',
           tab tw @ ''template <std::size_t Alignment>'',
           tab tw @ ''struct '' @ container_name r @ ''_node_size;'']
      ''namespace detail'' = 1"
    using t by auto
  have foot: "count_list
      [''} // namespace detail'', [],
             ''template <typename T>'',
             ''struct '' @ container_name r @ ''_node_size'',
             '': std::integral_constant<std::size_t,'',
             ''       detail::'' @ container_name r
               @ ''_node_size<FOONATHAN_ALIGNOF(T)>::value + sizeof(T)>'',
             ''{};'', []]
      ''namespace detail'' = 0"
    by simp
  show ?thesis
    unfolding code_emit_lines [OF assms] count_list_append count_list_concat_map head foot group
    by simp
qed

lemma count_namespace_blocks:
  assumes "\<forall>d. CHR 0x0A \<notin> set (container_name (debug P d))"
  shows "count_list (concat (map (\<lambda>d. lines_of (code_emit tw (debug P d))) ds))
           ''namespace detail'' = length ds"
  using assms by (simp add: count_list_concat_map count_namespace_lines sum_list_const_one)

lemma list_all_concat_map:
  "(\<And>p. list_all Q (f p)) \<Longrightarrow> list_all Q (concat (map f ps))"
  by (induction ps) simp_all

lemma block_line_hd:
  assumes "CHR 0x0A \<notin> set (container_name r)" and "l \<in> set (lines_of (code_emit tw r))"
  shows "l = [] \<or> hd l \<noteq> CHR ''/''"
proof -
  obtain c cs where t: "tab tw = c # cs" "c = CHR '' '' \<or> c = CHR 0x09"
    using tab_Cons by blast
  have "list_all (\<lambda>l. l = [] \<or> hd l \<noteq> CHR ''/'') (lines_of (code_emit tw r))"
    unfolding code_emit_lines [OF assms(1)] list_all_append
    by (intro conjI list_all_concat_map) (use t in auto)
  with assms(2) show ?thesis
    by (simp add: list_all_iff)
qed

lemma count_list_blocks:
  assumes "\<forall>d. CHR 0x0A \<notin> set (container_name (debug P d))"
    and "m \<noteq> []" and "hd m = CHR ''/''"
  shows "count_list (concat (map (\<lambda>d. lines_of (code_emit tw (debug P d))) ds)) m = 0"
proof -
  have "m \<notin> set (lines_of (code_emit tw (debug P d)))" for d
    using block_line_hd [of "debug P d" m tw] assms by blast
  then show ?thesis
    by (simp add: count_list_concat_map count_list_0_iff)
qed

lemma code_text_unlines:
  assumes "\<forall>d. CHR 0x0A \<notin> set (container_name (debug P d))"
  shows "code_prefix @ concat (map (\<lambda>d. code_emit tw (debug P d)) ds) @ code_suffix
     = unlines ([''// The following section was autogenerated by '' @ exe_name,
                 ''//=== BEGIN AUTOGENERATED SECTION ===//'', []]
                @ concat (map (\<lambda>d. lines_of (code_emit tw (debug P d))) ds)
                @ [''//=== END AUTOGENERATED SECTION ===//''])"
proof -
  have "(\<lambda>d. code_emit tw (debug P d)) = (\<lambda>d. unlines (lines_of (code_emit tw (debug P d))))"
    using assms by (simp add: code_emit_roundtrip)
  then have "concat (map (\<lambda>d. code_emit tw (debug P d)) ds)
      = unlines (concat (map (\<lambda>d. lines_of (code_emit tw (debug P d))) ds))"
    by (simp only: unlines_concat map_map o_def)
  then show ?thesis
    by (simp add: unlines_append code_prefix_def code_suffix_def newline_def unlines_def)
qed

lemma code_text_lines:
  assumes "\<forall>d. CHR 0x0A \<notin> set (container_name (debug P d))"
  shows "lines_of (code_prefix @ concat (map (\<lambda>d. code_emit tw (debug P d)) ds) @ code_suffix)
     = [''// The following section was autogenerated by '' @ exe_name,
                 ''//=== BEGIN AUTOGENERATED SECTION ===//'', []]
                @ concat (map (\<lambda>d. lines_of (code_emit tw (debug P d))) ds)
                @ [''//=== END AUTOGENERATED SECTION ===//'']"
  unfolding code_text_unlines [OF assms]
  by (rule lines_of_unlines) (auto simp: exe_name_def dest: lines_of_no_newline)

lemma files_serialize:
  "out ser = Ofstream p \<Longrightarrow>
     files (serialize P ser w) p = Some (written (Ofstream p) (serialize P ser w))"
  by (simp add: serialize_def suffix_def put_def written_def)

lemma setw_2_dec: "setw 2 (dec n) = (if n < 10 then CHR '' '' # dec n else dec n)"
proof (cases "n < 10")
  case True
  then show ?thesis by (simp add: setw_def dec_small)
next
  case False
  then have "2 \<le> length (dec n)" by (simp add: dec_large)
  with False show ?thesis by (simp add: setw_def)
qed

lemma verbose_emit_unlines:
  "verbose_emit r
     = unlines ((''For container '' @ [CHR 0x27] @ container_name r @ [CHR 0x27] @ '':'')
         # map (\<lambda>p. [CHR 0x09] @ ''With an alignment of ''
                   @ (if fst p < 10 then CHR '' '' # dec (fst p) else dec (fst p))
                   @ '' is the base node size ''
                   @ (if snd p < 10 then CHR '' '' # dec (snd p) else dec (snd p)) @ ''.'')
             (node_sizes r))"
proof -
  have "concat (map (\<lambda>(first, second).
         [CHR 0x09] @ ''With an alignment of '' @ setw 2 (dec first)
         @ '' is the base node size '' @ setw 2 (dec second) @ ''.'' @ newline) ps)
      = unlines (map (\<lambda>p. [CHR 0x09] @ ''With an alignment of ''
                   @ (if fst p < 10 then CHR '' '' # dec (fst p) else dec (fst p))
                   @ '' is the base node size ''
                   @ (if snd p < 10 then CHR '' '' # dec (snd p) else dec (snd p)) @ ''.'') ps)"
    for ps
    by (induction ps) (simp_all add: unlines_def newline_def setw_2_dec case_prod_unfold)
  then show ?thesis
    by (simp add: verbose_emit_def unlines_def newline_def)
qed

lemma two_tabs_not_indent:
  "tab tw @ tab tw \<noteq> []" "tab tw @ tab tw \<noteq> tab tw" "tab tw @ tab tw \<noteq> ''       ''"
proof -
  obtain c cs where t: "tab tw = c # cs"
    using tab_Cons by blast
  show "tab tw @ tab tw \<noteq> []" "tab tw @ tab tw \<noteq> tab tw"
    by (simp_all add: t)
  show "tab tw @ tab tw \<noteq> ''       ''"
  proof
    assume "tab tw @ tab tw = ''       ''"
    then have "length (tab tw @ tab tw) = length ''       ''"
      by (rule arg_cong)
    then have "2 * length (tab tw) = 7"
      by simp
    then show False
      by presburger
  qed
qed

lemma block_line_indent:
  assumes "CHR 0x0A \<notin> set (container_name r)" and "l \<in> set (lines_of (code_emit tw r))"
  shows "indent_of l = [] \<or> indent_of l = tab tw \<or> indent_of l = ''       ''"
proof -
  have e: "indent_of [] = []"
    by (simp add: indent_of_def)
  have "list_all (\<lambda>l. indent_of l = [] \<or> indent_of l = tab tw \<or> indent_of l = ''       '')
          (lines_of (code_emit tw r))"
    unfolding code_emit_lines [OF assms(1)] list_all_append
    by (intro conjI list_all_concat_map) (simp_all add: indent_of_tab e, simp_all add: indent_of_def)
  with assms(2) show ?thesis
    by (simp add: list_all_iff)
qed

subsection \<open>The command line\<close>

text \<open>
  C8. Started with no argument, the program does exactly what it does with
  \<open>--simple\<close> as its first argument: same exit status, same bytes on every stream.
\<close>

theorem no_arguments_is_simple:
  "main P [] w = main P (argv0 # ''--simple'' # rest) w
   \<and> main P [argv0'] w = main P (argv0 # ''--simple'' # rest) w"
  by (simp add: main_def)



text \<open>
  C4. In the \<open>--code\<close> branch, after any accepted tokens \<open>pre\<close>: a \<open>-t\<close> that is last or
  whose next token is not one of the ten one-digit tokens ends the run through
  \<open>print_invalid_argument\<close> with \<open>-t\<close>; a token other than \<open>-t\<close> met while no file is open
  is opened as the output file, truncating it, and if it cannot be opened the run ends
  with \<open>outputfile\<close>; a token other than \<open>-t\<close> met when the file is open ends the run
  with \<open>--code\<close>. \<open>print_invalid_argument\<close> writes its two lines to the error stream and
  returns 2.
\<close>

theorem code_argument_errors:
  assumes "code_args P pre 4 None w = (Inr (tw, fl), w1)"
  shows "(rest = [] \<or> hd rest \<notin> (\<lambda>c. [c]) ` set ''0123456789''
            \<longrightarrow> main P (argv0 # ''--code'' # pre @ ''-t'' # rest) w
                  = print_invalid_argument Cerr ''-t'' w1)
       \<and> (tok \<noteq> ''-t'' \<and> fl = None \<and> \<not> opens P tok
            \<longrightarrow> main P (argv0 # ''--code'' # pre @ tok # rest) w
                  = print_invalid_argument Cerr ''outputfile'' w1)
       \<and> (tok \<noteq> ''-t'' \<and> fl = None \<and> opens P tok
            \<longrightarrow> code_args P (pre @ tok # rest) 4 None w
                  = code_args P rest tw (Some tok) (w1\<lparr>files := (files w1)(tok \<mapsto> [])\<rparr>))
       \<and> (tok \<noteq> ''-t'' \<and> fl \<noteq> None
            \<longrightarrow> main P (argv0 # ''--code'' # pre @ tok # rest) w
                  = print_invalid_argument Cerr ''--code'' w1)
       \<and> print_invalid_argument Cerr option w1
           = (2, w1\<lparr>cerr := cerr w1 @ exe_name @ '': invalid argument for option -- ''
                      @ [CHR 0x27] @ option @ [CHR 0x27, CHR 0x0A]
                      @ ''Try '' @ [CHR 0x27] @ exe_name @ '' --help'' @ [CHR 0x27]
                      @ '' for more information.'' @ [CHR 0x0A]\<rparr>)"
proof -
  note app = code_args_append [OF assms]
  have t: "rest = [] \<or> hd rest \<notin> (\<lambda>c. [c]) ` set ''0123456789''
            \<Longrightarrow> code_args P (''-t'' # rest) tw fl w1 = (Inl ''-t'', w1)"
    by (cases rest) (auto simp: single_digit_iff)
  have 1: "rest = [] \<or> hd rest \<notin> (\<lambda>c. [c]) ` set ''0123456789''
            \<Longrightarrow> main P (argv0 # ''--code'' # pre @ ''-t'' # rest) w
                  = print_invalid_argument Cerr ''-t'' w1"
    using t by (simp add: main_def app)
  have 2: "tok \<noteq> ''-t'' \<and> fl = None \<and> \<not> opens P tok
            \<Longrightarrow> main P (argv0 # ''--code'' # pre @ tok # rest) w
                  = print_invalid_argument Cerr ''outputfile'' w1"
    by (simp add: main_def app)
  have 3: "tok \<noteq> ''-t'' \<and> fl = None \<and> opens P tok
            \<Longrightarrow> code_args P (pre @ tok # rest) 4 None w
                  = code_args P rest tw (Some tok) (w1\<lparr>files := (files w1)(tok \<mapsto> [])\<rparr>)"
    by (simp add: app)
  have 4: "tok \<noteq> ''-t'' \<and> fl \<noteq> None
            \<Longrightarrow> main P (argv0 # ''--code'' # pre @ tok # rest) w
                  = print_invalid_argument Cerr ''--code'' w1"
    by (auto simp: main_def app)
  have 5: "print_invalid_argument Cerr option w1
           = (2, w1\<lparr>cerr := cerr w1 @ exe_name @ '': invalid argument for option -- ''
                      @ [CHR 0x27] @ option @ [CHR 0x27, CHR 0x0A]
                      @ ''Try '' @ [CHR 0x27] @ exe_name @ '' --help'' @ [CHR 0x27]
                      @ '' for more information.'' @ [CHR 0x0A]\<rparr>)"
    by (simp add: print_invalid_argument_def put_def try_help_def newline_def)
  from 1 2 3 4 5 show ?thesis by blast
qed

theorem code_argument_errors_witness:
  "code_args sample_platform [''-t'', ''0'', ''out.hpp''] 4 None sample_world
     = (Inr (0, Some ''out.hpp''), sample_world\<lparr>files := (files sample_world)(''out.hpp'' \<mapsto> [])\<rparr>)
   \<and> main sample_platform (''nsd'' # ''--code'' # [''-t'', ''0'', ''out.hpp''] @ ''-t'' # [''12'']) sample_world
       = print_invalid_argument Cerr ''-t'' (sample_world\<lparr>files := (files sample_world)(''out.hpp'' \<mapsto> [])\<rparr>)
   \<and> main sample_platform (''nsd'' # ''--code'' # [''-t'', ''0'', ''out.hpp''] @ ''more'' # [''12'']) sample_world
       = print_invalid_argument Cerr ''--code'' (sample_world\<lparr>files := (files sample_world)(''out.hpp'' \<mapsto> [])\<rparr>)
   \<and> code_args sample_platform [] 4 None sample_world = (Inr (4, None), sample_world)
   \<and> main sample_platform (''nsd'' # ''--code'' # [] @ ''/nowhere/x'' # []) sample_world
       = print_invalid_argument Cerr ''outputfile'' sample_world
   \<and> code_args sample_platform ([] @ ''out.hpp'' # [''-t'', ''3'']) 4 None sample_world
       = code_args sample_platform [''-t'', ''3''] 4 (Some ''out.hpp'')
           (sample_world\<lparr>files := (files sample_world)(''out.hpp'' \<mapsto> [])\<rparr>)"
proof -
  have h1: "code_args sample_platform [''-t'', ''0'', ''out.hpp''] 4 None sample_world
     = (Inr (0, Some ''out.hpp''), sample_world\<lparr>files := (files sample_world)(''out.hpp'' \<mapsto> [])\<rparr>)"
    by (simp add: single_digit_def isdigit_def digit_value_def sample_platform_def)
  have h2: "code_args sample_platform [] 4 None sample_world = (Inr (4, None), sample_world)"
    by simp
  have o: "opens sample_platform ''out.hpp''" "\<not> opens sample_platform ''/nowhere/x''"
    by (simp_all add: sample_platform_def)
  show ?thesis
    using h1 h2 o
      code_argument_errors [OF h1, of "[''12'']" "''nsd''" "''more''"]
      code_argument_errors [OF h2, of "[]" "''nsd''" "''/nowhere/x''"]
      code_argument_errors [OF h2, of "[''-t'', ''3'']" "''nsd''" "''out.hpp''"]
    by simp
qed

text \<open>
  C7. A first argument that is none of the five known options ends the run with exit
  status 2; the only effect is the two-line message on the error stream, which quotes
  the argument without its leading dashes (all of them) and points to \<open>--help\<close>.
\<close>

theorem invalid_option_message:
  assumes "tok \<notin> {''--simple'', ''--verbose'', ''--code'', ''--help'', ''--version''}"
  shows "\<exists>k stripped.
           tok = replicate k (CHR ''-'') @ stripped
         \<and> takeWhile (\<lambda>c. c = CHR ''-'') stripped = []
         \<and> main P (argv0 # tok # rest) w
             = (2, w\<lparr>cerr := cerr w @ exe_name @ '': invalid option -- '' @ [CHR 0x27]
                               @ stripped @ [CHR 0x27, CHR 0x0A]
                               @ ''Try '' @ [CHR 0x27] @ exe_name @ '' --help'' @ [CHR 0x27]
                               @ '' for more information.'' @ [CHR 0x0A]\<rparr>)"
proof -
  define k where "k = length (takeWhile (\<lambda>c. c = CHR ''-'') tok)"
  define s where "s = dropWhile (\<lambda>c. c = CHR ''-'') tok"
  have "tok = takeWhile (\<lambda>c. c = CHR ''-'') tok @ s"
    by (simp add: s_def)
  then have 1: "tok = replicate k (CHR ''-'') @ s"
    using takeWhile_eq_replicate [of "CHR ''-''" tok] by (simp add: k_def)
  have 2: "takeWhile (\<lambda>c. c = CHR ''-'') s = []"
  proof (cases s)
    case Nil
    then show ?thesis by simp
  next
    case (Cons c cs)
    then have "hd s \<noteq> CHR ''-''"
      using hd_dropWhile [of "\<lambda>c. c = CHR ''-''" tok] by (simp add: s_def)
    with Cons show ?thesis by simp
  qed
  have 3: "main P (argv0 # tok # rest) w
             = (2, w\<lparr>cerr := cerr w @ exe_name @ '': invalid option -- '' @ [CHR 0x27]
                               @ s @ [CHR 0x27, CHR 0x0A]
                               @ ''Try '' @ [CHR 0x27] @ exe_name @ '' --help'' @ [CHR 0x27]
                               @ '' for more information.'' @ [CHR 0x0A]\<rparr>)"
    using assms
    by (simp add: main_def print_invalid_option_def put_def try_help_def newline_def s_def)
  from 1 2 3 show ?thesis by blast
qed

theorem invalid_option_message_witness:
  "''--bogus'' \<notin> {''--simple'', ''--verbose'', ''--code'', ''--help'', ''--version''}
   \<and> (\<exists>k stripped.
           ''--bogus'' = replicate k (CHR ''-'') @ stripped
         \<and> takeWhile (\<lambda>c. c = CHR ''-'') stripped = []
         \<and> main sample_platform (''nsd'' # ''--bogus'' # [''x'']) sample_world
             = (2, sample_world\<lparr>cerr := cerr sample_world @ exe_name @ '': invalid option -- '' @ [CHR 0x27]
                               @ stripped @ [CHR 0x27, CHR 0x0A]
                               @ ''Try '' @ [CHR 0x27] @ exe_name @ '' --help'' @ [CHR 0x27]
                               @ '' for more information.'' @ [CHR 0x0A]\<rparr>))"
proof -
  have h: "''--bogus'' \<notin> {''--simple'', ''--verbose'', ''--code'', ''--help'', ''--version''}"
    by simp
  from invalid_option_message [OF h, of sample_platform "''nsd''" "[''x'']" sample_world] h
  show ?thesis by blast
qed

text \<open>
  C9. A run that exits with status 2 has made no serializer call and has written
  nothing to standard output; every file is as it was, or empty because the argument
  loop had already opened it for writing. However the loop over the arguments of
  \<open>--code\<close> ends, no serializer call has been made by then.
\<close>

theorem failed_run_emits_nothing:
  assumes "fst (main P argv w) = 2"
  shows "calls (snd (main P argv w)) = calls w
       \<and> cout (snd (main P argv w)) = cout w
       \<and> (\<forall>p. files (snd (main P argv w)) p = files w p
              \<or> files (snd (main P argv w)) p = Some [])
       \<and> calls (snd (code_args P (drop 2 argv) 4 None w)) = calls w"
proof (cases "code_args P (drop 2 argv) 4 None w")
  case (Pair res w')
  from code_args_world [OF Pair]
  have "calls w' = calls w" "cout w' = cout w"
       "\<forall>p. files w' p = files w p \<or> files w' p = Some []" by auto
  with Pair assms show ?thesis
    by (cases res)
       (auto simp: main_def print_invalid_argument_def print_invalid_option_def put_def
             split: if_splits)
qed

theorem failed_run_emits_nothing_witness:
  "fst (main sample_platform [''nsd'', ''--code'', ''out.hpp'', ''extra''] sample_world) = 2
   \<and> calls (snd (main sample_platform [''nsd'', ''--code'', ''out.hpp'', ''extra''] sample_world)) = calls sample_world
   \<and> cout (snd (main sample_platform [''nsd'', ''--code'', ''out.hpp'', ''extra''] sample_world)) = cout sample_world
   \<and> (\<forall>p. files (snd (main sample_platform [''nsd'', ''--code'', ''out.hpp'', ''extra''] sample_world)) p
               = files sample_world p
          \<or> files (snd (main sample_platform [''nsd'', ''--code'', ''out.hpp'', ''extra''] sample_world)) p
               = Some [])
   \<and> calls (snd (code_args sample_platform [''out.hpp'', ''extra''] 4 None sample_world))
       = calls sample_world"
proof -
  have h: "fst (main sample_platform [''nsd'', ''--code'', ''out.hpp'', ''extra''] sample_world) = 2"
    by (simp add: main_def sample_platform_def print_invalid_argument_def)
  from failed_run_emits_nothing [OF h] h show ?thesis by simp
qed

text \<open>
  C10. Unless the first argument is \<open>--code\<close>, nothing after it is read: two argument
  vectors with the same first argument give the same exit status and the same world,
  whatever follows (and whatever the program was called as).
\<close>

theorem other_modes_ignore_rest:
  assumes "tok \<noteq> ''--code''"
  shows "main P (a # tok # rest) w = main P (a' # tok # rest') w"
  using assms by (simp add: main_def)

theorem other_modes_ignore_rest_witness:
  "''--verbose'' \<noteq> ''--code''
   \<and> main sample_platform (''nsd'' # ''--verbose'' # [''-t'', ''x'']) sample_world
       = main sample_platform (''./nsd'' # ''--verbose'' # []) sample_world"
proof -
  have h: "''--verbose'' \<noteq> ''--code''" by simp
  from other_modes_ignore_rest [OF h] h show ?thesis by blast
qed

subsection \<open>The generated text\<close>

text \<open>
  C5. A \<open>--code\<close> run whose arguments are accepted exits with 0 and writes, to the file
  it opened or else to standard output, a text whose lines are: the comment naming the
  program, the BEGIN marker, an empty line, then the block of each container in the
  order of \<open>debuggers\<close>, then the END marker. Each marker is a line of that text exactly
  once, and the line that opens a block ten times. The first three lines are what \<open>prefix()\<close> writes and the last is what
  \<open>suffix()\<close> writes. The container names are assumed to hold no line break.
\<close>

theorem code_output_markers:
  assumes "code_args P args 4 None w = (Inr (tw, fl), w1)"
    and "\<forall>d. CHR 0x0A \<notin> set (container_name (debug P d))"
  shows "\<exists>generated.
      fst (main P (argv0 # ''--code'' # args) w) = 0
    \<and> (case fl of
         None \<Rightarrow> cout (snd (main P (argv0 # ''--code'' # args) w)) = cout w @ generated
       | Some p \<Rightarrow> files (snd (main P (argv0 # ''--code'' # args) w)) p = Some generated)
    \<and> lines_of generated
        = [''// The following section was autogenerated by '' @ exe_name,
           ''//=== BEGIN AUTOGENERATED SECTION ===//'', []]
          @ concat (map (\<lambda>d. lines_of (code_emit tw (debug P d)))
              [debug_forward_list, debug_list, debug_set, debug_multiset,
               debug_unordered_set, debug_unordered_multiset,
               debug_map, debug_multimap, debug_unordered_map, debug_unordered_multimap])
          @ [''//=== END AUTOGENERATED SECTION ===//'']
    \<and> count_list (lines_of generated) ''//=== BEGIN AUTOGENERATED SECTION ===//'' = 1
    \<and> count_list (lines_of generated) ''//=== END AUTOGENERATED SECTION ===//'' = 1
    \<and> count_list (lines_of generated) ''namespace detail'' = 10
    \<and> lines_of code_prefix
        = [''// The following section was autogenerated by '' @ exe_name,
           ''//=== BEGIN AUTOGENERATED SECTION ===//'', []]
    \<and> lines_of code_suffix = [''//=== END AUTOGENERATED SECTION ===//'']"
proof -
  define generated where
    "generated = code_prefix @ concat (map (\<lambda>d. code_emit tw (debug P d)) debuggers) @ code_suffix"
  define s where "s = (case fl of None \<Rightarrow> Cout | Some p \<Rightarrow> Ofstream p)"
  define w2 where "w2 = serialize P (code_serializer s tw) w1"
  have m: "main P (argv0 # ''--code'' # args) w = (0, w2)"
    by (simp add: main_def assms(1) w2_def s_def)
  have wr: "written s w2 = written s w1 @ generated"
    unfolding w2_def generated_def using written_serialize [of "code_serializer s tw" P w1]
    by simp
  have dest: "case fl of None \<Rightarrow> cout w2 = cout w @ generated | Some p \<Rightarrow> files w2 p = Some generated"
  proof (cases fl)
    case None
    with code_args_result [OF assms(1)] have "w1 = w" by simp
    with wr None show ?thesis by (simp add: s_def written_def)
  next
    case (Some p)
    with code_args_result [OF assms(1)] have "w1 = w\<lparr>files := (files w)(p \<mapsto> [])\<rparr>"
      by simp
    then have "written s w1 = []"
      using Some by (simp add: s_def written_def)
    moreover have "files w2 p = Some (written (Ofstream p) w2)"
      unfolding w2_def using Some by (intro files_serialize) (simp add: s_def)
    ultimately show ?thesis
      using wr Some by (simp add: s_def)
  qed
  have ls: "lines_of generated
        = [''// The following section was autogenerated by '' @ exe_name,
           ''//=== BEGIN AUTOGENERATED SECTION ===//'', []]
          @ concat (map (\<lambda>d. lines_of (code_emit tw (debug P d))) debuggers)
          @ [''//=== END AUTOGENERATED SECTION ===//'']"
    unfolding generated_def by (rule code_text_lines [OF assms(2)])
  have b: "count_list (lines_of generated) ''//=== BEGIN AUTOGENERATED SECTION ===//'' = 1"
    unfolding ls count_list_append
    by (simp add: count_list_blocks [OF assms(2)] exe_name_def)
  have e: "count_list (lines_of generated) ''//=== END AUTOGENERATED SECTION ===//'' = 1"
    unfolding ls count_list_append
    by (simp add: count_list_blocks [OF assms(2)] exe_name_def)
  have "count_list (concat (map (\<lambda>d. lines_of (code_emit tw (debug P d))) debuggers))
          ''namespace detail'' = 10"
    unfolding count_namespace_blocks [OF assms(2)] by (simp add: debuggers_def)
  then have n: "count_list (lines_of generated) ''namespace detail'' = 10"
    unfolding ls count_list_append by (simp add: exe_name_def)
  have p: "lines_of code_prefix
        = [''// The following section was autogenerated by '' @ exe_name,
           ''//=== BEGIN AUTOGENERATED SECTION ===//'', []]"
  proof -
    have "lines_of code_prefix
        = lines_of (unlines [''// The following section was autogenerated by '' @ exe_name,
           ''//=== BEGIN AUTOGENERATED SECTION ===//'', []])"
      by (simp add: code_prefix_def newline_def unlines_def)
    also have "\<dots>
        = [''// The following section was autogenerated by '' @ exe_name,
           ''//=== BEGIN AUTOGENERATED SECTION ===//'', []]"
      by (rule lines_of_unlines) (simp add: exe_name_def)
    finally show ?thesis .
  qed
  have q: "lines_of code_suffix = [''//=== END AUTOGENERATED SECTION ===//'']"
    using lines_of_line [of "''//=== END AUTOGENERATED SECTION ===//''" "[]"]
    by (simp add: code_suffix_def newline_def)
  from m have m1: "fst (main P (argv0 # ''--code'' # args) w) = 0"
    and m2: "snd (main P (argv0 # ''--code'' # args) w) = w2"
    by simp_all
  note ls' = ls [unfolded debuggers_def]
  show ?thesis
    unfolding m2 by (intro exI [of _ generated] conjI m1 dest ls' b e n p q)
qed

theorem code_output_markers_witness:
  "code_args sample_platform [''-t'', ''0'', ''out.hpp''] 4 None sample_world
     = (Inr (0, Some ''out.hpp''), sample_world\<lparr>files := (files sample_world)(''out.hpp'' \<mapsto> [])\<rparr>)
   \<and> (\<forall>d. CHR 0x0A \<notin> set (container_name (debug sample_platform d)))
   \<and> (\<exists>generated.
      fst (main sample_platform (''nsd'' # ''--code'' # [''-t'', ''0'', ''out.hpp'']) sample_world) = 0
    \<and> files (snd (main sample_platform (''nsd'' # ''--code'' # [''-t'', ''0'', ''out.hpp'']) sample_world)) ''out.hpp''
        = Some generated
    \<and> lines_of generated
        = [''// The following section was autogenerated by '' @ exe_name,
           ''//=== BEGIN AUTOGENERATED SECTION ===//'', []]
          @ concat (map (\<lambda>d. lines_of (code_emit 0 (debug sample_platform d)))
              [debug_forward_list, debug_list, debug_set, debug_multiset,
               debug_unordered_set, debug_unordered_multiset,
               debug_map, debug_multimap, debug_unordered_map, debug_unordered_multimap])
          @ [''//=== END AUTOGENERATED SECTION ===//'']
    \<and> count_list (lines_of generated) ''//=== BEGIN AUTOGENERATED SECTION ===//'' = 1
    \<and> count_list (lines_of generated) ''//=== END AUTOGENERATED SECTION ===//'' = 1
    \<and> count_list (lines_of generated) ''namespace detail'' = 10)"
proof -
  have h1: "code_args sample_platform [''-t'', ''0'', ''out.hpp''] 4 None sample_world
     = (Inr (0, Some ''out.hpp''), sample_world\<lparr>files := (files sample_world)(''out.hpp'' \<mapsto> [])\<rparr>)"
    by (simp add: single_digit_def isdigit_def digit_value_def sample_platform_def)
  have h2: "\<forall>d. CHR 0x0A \<notin> set (container_name (debug sample_platform d))"
    by (simp add: sample_platform_def)
  from code_output_markers [OF h1 h2, of "''nsd''"]
  obtain generated where
    "fst (main sample_platform (''nsd'' # ''--code'' # [''-t'', ''0'', ''out.hpp'']) sample_world) = 0"
    "files (snd (main sample_platform (''nsd'' # ''--code'' # [''-t'', ''0'', ''out.hpp'']) sample_world)) ''out.hpp''
        = Some generated"
    "lines_of generated
        = [''// The following section was autogenerated by '' @ exe_name,
           ''//=== BEGIN AUTOGENERATED SECTION ===//'', []]
          @ concat (map (\<lambda>d. lines_of (code_emit 0 (debug sample_platform d)))
              [debug_forward_list, debug_list, debug_set, debug_multiset,
               debug_unordered_set, debug_unordered_multiset,
               debug_map, debug_multimap, debug_unordered_map, debug_unordered_multimap])
          @ [''//=== END AUTOGENERATED SECTION ===//'']"
    "count_list (lines_of generated) ''//=== BEGIN AUTOGENERATED SECTION ===//'' = 1"
    "count_list (lines_of generated) ''//=== END AUTOGENERATED SECTION ===//'' = 1"
    "count_list (lines_of generated) ''namespace detail'' = 10"
    by (auto simp only: option.case)
  with h1 h2 show ?thesis by blast
qed

text \<open>
  C6. The block of one container, line by line: between the declaration of the primary
  template and the end of the namespace there are, for each pair of the result in order,
  an empty line and the four lines of one explicit specialization, with the alignment in
  the template argument and the base node size in the \<open>integral_constant\<close>. The block has
  as many \<open>template <>\<close> lines as the result has pairs, and the digits printed for a
  number stand for that number.
\<close>

theorem code_emit_specializations:
  assumes "CHR 0x0A \<notin> set (container_name r)"
  shows "lines_of (code_emit tw r)
     = [''namespace detail'', ''{'',
           tab tw @ ''template <std::size_t Alignment>'',
           tab tw @ ''struct '' @ container_name r @ ''_node_size;'']
          @ concat (map (\<lambda>(first, second).
              [[], tab tw @ ''template <>'',
               tab tw @ ''struct '' @ container_name r @ ''_node_size<'' @ dec first @ ''>'',
               tab tw @ '': std::integral_constant<std::size_t, '' @ dec second @ ''>'',
               tab tw @ ''{};'']) (node_sizes r))
          @ [''} // namespace detail'', [],
             ''template <typename T>'',
             ''struct '' @ container_name r @ ''_node_size'',
             '': std::integral_constant<std::size_t,'',
             ''       detail::'' @ container_name r
               @ ''_node_size<FOONATHAN_ALIGNOF(T)>::value + sizeof(T)>'',
             ''{};'', []]
     \<and> count_list (lines_of (code_emit tw r)) (tab tw @ ''template <>'')
         = length (node_sizes r)
     \<and> num_of (dec n) = n"
  using code_emit_lines [OF assms, of tw] count_template_lines [OF assms, of tw] num_of_dec [of n]
  by (simp add: case_prod_unfold)

theorem code_emit_specializations_witness:
  "CHR 0x0A \<notin> set (container_name sample_result)
   \<and> lines_of (code_emit 4 sample_result)
     = [''namespace detail'', ''{'',
        ''    template <std::size_t Alignment>'',
        ''    struct list_node_size;'',
        [],
        ''    template <>'',
        ''    struct list_node_size<8>'',
        ''    : std::integral_constant<std::size_t, 16>'',
        ''    {};'',
        [],
        ''    template <>'',
        ''    struct list_node_size<16>'',
        ''    : std::integral_constant<std::size_t, 32>'',
        ''    {};'',
        ''} // namespace detail'', [],
        ''template <typename T>'',
        ''struct list_node_size'',
        '': std::integral_constant<std::size_t,'',
        ''       detail::list_node_size<FOONATHAN_ALIGNOF(T)>::value + sizeof(T)>'',
        ''{};'', []]
   \<and> count_list (lines_of (code_emit 4 sample_result)) (tab 4 @ ''template <>'') = 2
   \<and> num_of (dec 16) = 16"
proof -
  have h: "CHR 0x0A \<notin> set (container_name sample_result)"
    by (simp add: sample_result_def)
  have d: "dec 8 = ''8''" "dec 16 = ''16''" "dec 32 = ''32''"
    by code_simp+
  have t: "tab 4 = ''    ''"
    by (simp add: tab_def numeral_eq_Suc)
  from code_emit_specializations [OF h, of 4 16] h show ?thesis
    by (simp add: sample_result_def d t)
qed

text \<open>
  C2, as the claim states it, fails: the code serializer has one level of indentation
  only. With tab width 0 the lines of a block start with no white space, one tab, or
  the seven spaces of the continuation line of the public template; none starts with
  two tabs.
\<close>

theorem two_level_indentation_counterexample:
  "map indent_of (lines_of (code_emit 0 sample_result))
     = [[], [], tab 0, tab 0,
        [], tab 0, tab 0, tab 0, tab 0,
        [], tab 0, tab 0, tab 0, tab 0,
        [], [], [], [], [], ''       '', [], []]
   \<and> tab 0 @ tab 0 \<notin> set (map indent_of (lines_of (code_emit 0 sample_result)))"
proof -
  have h: "CHR 0x0A \<notin> set (container_name sample_result)"
    by (simp add: sample_result_def)
  have "map indent_of (lines_of (code_emit 0 sample_result))
     = [[], [], tab 0, tab 0,
        [], tab 0, tab 0, tab 0, tab 0,
        [], tab 0, tab 0, tab 0, tab 0,
        [], [], [], [], [], ''       '', [], []]"
    unfolding code_emit_lines [OF h]
    by (simp add: sample_result_def indent_of_def tab_def)
  then show ?thesis
    by (simp add: tab_def)
qed

text \<open>
  C2, amended. \<open>tab()\<close> is one tab character for width 0 and \<open>tab_width\<close> spaces
  otherwise. In a block, the lines between the opening brace of the namespace and its
  closing line are two plus five per pair; each of them is empty or starts with exactly
  the white space of one \<open>tab()\<close>. The seven lines after the closing line start with no
  white space, but for the continuation line of the public template, which starts with
  seven spaces whatever the width. No line of the block starts with exactly the white
  space of two \<open>tab()\<close>.
\<close>

theorem code_emit_indentation:
  assumes "CHR 0x0A \<notin> set (container_name r)"
  shows "tab 0 = [CHR 0x09]
     \<and> (0 < tw \<longrightarrow> tab tw = replicate tw (CHR '' ''))
     \<and> (\<exists>nested rest.
           lines_of (code_emit tw r)
             = [''namespace detail'', ''{''] @ nested @ ''} // namespace detail'' # rest
         \<and> ''} // namespace detail'' \<notin> set nested
         \<and> length nested = 2 + 5 * length (node_sizes r)
         \<and> (\<forall>l \<in> set nested. l = [] \<or> indent_of l = tab tw)
         \<and> map indent_of rest = [[], [], [], [], ''       '', [], []]
         \<and> (\<forall>l \<in> set (lines_of (code_emit tw r)). indent_of l \<noteq> tab tw @ tab tw))"
proof -
  define nested where
    "nested = [tab tw @ ''template <std::size_t Alignment>'',
               tab tw @ ''struct '' @ container_name r @ ''_node_size;'']
          @ concat (map (\<lambda>p.
              [[], tab tw @ ''template <>'',
               tab tw @ ''struct '' @ container_name r @ ''_node_size<'' @ dec (fst p) @ ''>'',
               tab tw @ '': std::integral_constant<std::size_t, '' @ dec (snd p) @ ''>'',
               tab tw @ ''{};'']) (node_sizes r))"
  define rest where
    "rest = [[], ''template <typename T>'',
             ''struct '' @ container_name r @ ''_node_size'',
             '': std::integral_constant<std::size_t,'',
             ''       detail::'' @ container_name r
               @ ''_node_size<FOONATHAN_ALIGNOF(T)>::value + sizeof(T)>'',
             ''{};'', []]"
  obtain c cs where t: "tab tw = c # cs" "c = CHR '' '' \<or> c = CHR 0x09"
    using tab_Cons by blast
  have 1: "lines_of (code_emit tw r)
             = [''namespace detail'', ''{''] @ nested @ ''} // namespace detail'' # rest"
    unfolding code_emit_lines [OF assms] nested_def rest_def by simp
  have "list_all (\<lambda>l. l \<noteq> ''} // namespace detail'') nested"
    unfolding nested_def list_all_append
    by (intro conjI list_all_concat_map) (use t in auto)
  then have 2: "''} // namespace detail'' \<notin> set nested"
    by (auto simp: list_all_iff)
  have 3: "length nested = 2 + 5 * length (node_sizes r)"
    unfolding nested_def by (simp add: length_concat o_def sum_list_triv)
  have "list_all (\<lambda>l. l = [] \<or> indent_of l = tab tw) nested"
    unfolding nested_def list_all_append
    by (intro conjI list_all_concat_map) (simp_all add: indent_of_tab)
  then have 4: "\<forall>l \<in> set nested. l = [] \<or> indent_of l = tab tw"
    by (simp add: list_all_iff)
  have 5: "tab 0 = [CHR 0x09]" "0 < tw \<longrightarrow> tab tw = replicate tw (CHR '' '')"
    by (simp_all add: tab_def)
  have 6: "map indent_of rest = [[], [], [], [], ''       '', [], []]"
    unfolding rest_def by (simp add: indent_of_def)
  have 7: "\<forall>l \<in> set (lines_of (code_emit tw r)). indent_of l \<noteq> tab tw @ tab tw"
  proof
    fix l
    assume "l \<in> set (lines_of (code_emit tw r))"
    from block_line_indent [OF assms this] two_tabs_not_indent [of tw]
    show "indent_of l \<noteq> tab tw @ tab tw"
      by metis
  qed
  have "lines_of (code_emit tw r)
             = [''namespace detail'', ''{''] @ nested @ ''} // namespace detail'' # rest
         \<and> ''} // namespace detail'' \<notin> set nested
         \<and> length nested = 2 + 5 * length (node_sizes r)
         \<and> (\<forall>l \<in> set nested. l = [] \<or> indent_of l = tab tw)
         \<and> map indent_of rest = [[], [], [], [], ''       '', [], []]
         \<and> (\<forall>l \<in> set (lines_of (code_emit tw r)). indent_of l \<noteq> tab tw @ tab tw)"
    by (intro conjI 1 2 3 4 6 7)
  then have "\<exists>nested rest.
           lines_of (code_emit tw r)
             = [''namespace detail'', ''{''] @ nested @ ''} // namespace detail'' # rest
         \<and> ''} // namespace detail'' \<notin> set nested
         \<and> length nested = 2 + 5 * length (node_sizes r)
         \<and> (\<forall>l \<in> set nested. l = [] \<or> indent_of l = tab tw)
         \<and> map indent_of rest = [[], [], [], [], ''       '', [], []]
         \<and> (\<forall>l \<in> set (lines_of (code_emit tw r)). indent_of l \<noteq> tab tw @ tab tw)"
    by (intro exI)
  with 5 show ?thesis
    by (intro conjI)
qed

theorem code_emit_indentation_witness:
  "CHR 0x0A \<notin> set (container_name sample_result)
     \<and> tab 0 = [CHR 0x09]
     \<and> 0 < (1::nat) \<and> tab 1 = replicate 1 (CHR '' '')
     \<and> (\<exists>nested rest.
           lines_of (code_emit 1 sample_result)
             = [''namespace detail'', ''{''] @ nested @ ''} // namespace detail'' # rest
         \<and> ''} // namespace detail'' \<notin> set nested
         \<and> length nested = 2 + 5 * length (node_sizes sample_result)
         \<and> (\<forall>l \<in> set nested. l = [] \<or> indent_of l = tab 1)
         \<and> map indent_of rest = [[], [], [], [], ''       '', [], []]
         \<and> (\<forall>l \<in> set (lines_of (code_emit 1 sample_result)). indent_of l \<noteq> tab 1 @ tab 1))"
proof -
  have h: "CHR 0x0A \<notin> set (container_name sample_result)"
    by (simp add: sample_result_def)
  have p: "0 < (1::nat)"
    by simp
  note th = code_emit_indentation [OF h, of 1]
  have a: "tab 0 = [CHR 0x09]"
    by (rule th [THEN conjunct1])
  have b: "tab 1 = replicate 1 (CHR '' '')"
    by (rule th [THEN conjunct2, THEN conjunct1, THEN mp, OF p])
  note c = th [THEN conjunct2, THEN conjunct2]
  show ?thesis
    by (intro conjI h a p b c)
qed

text \<open>
  C3, as the claim states it, fails: \<open>std::setw(2)\<close> puts the fill character before the
  number. For the pair (8, 16) the line reads "of  8 is", not "of 8  is".
\<close>

theorem verbose_padding_counterexample:
  "verbose_emit \<lparr>container_name = ''list'', node_sizes = [(8, 16)]\<rparr>
     = ''For container '' @ [CHR 0x27] @ ''list'' @ [CHR 0x27] @ '':'' @ [CHR 0x0A]
       @ [CHR 0x09] @ ''With an alignment of  8 is the base node size 16.'' @ [CHR 0x0A]
   \<and> verbose_emit \<lparr>container_name = ''list'', node_sizes = [(8, 16)]\<rparr>
     \<noteq> ''For container '' @ [CHR 0x27] @ ''list'' @ [CHR 0x27] @ '':'' @ [CHR 0x0A]
       @ [CHR 0x09] @ ''With an alignment of 8  is the base node size 16.'' @ [CHR 0x0A]"
proof -
  have d: "dec 8 = ''8''" "dec 16 = ''16''"
    by code_simp+
  show ?thesis
    by (simp add: verbose_emit_def d setw_def newline_def)
qed

text \<open>
  C3, amended. The verbose text is the header line naming the container and one line
  per pair, in order; in it a number below ten is written as a space followed by its
  digit, and a number from ten on as its digits alone, however many they are.
\<close>

theorem verbose_emit_fields:
  assumes "CHR 0x0A \<notin> set (container_name r)"
  shows "lines_of (verbose_emit r)
     = (''For container '' @ [CHR 0x27] @ container_name r @ [CHR 0x27] @ '':'')
         # map (\<lambda>(first, second). [CHR 0x09] @ ''With an alignment of ''
                   @ (if first < 10 then CHR '' '' # dec first else dec first)
                   @ '' is the base node size ''
                   @ (if second < 10 then CHR '' '' # dec second else dec second) @ ''.'')
             (node_sizes r)
     \<and> (n < 10 \<longrightarrow> length (dec n) = 1) \<and> (10 \<le> n \<longrightarrow> 2 \<le> length (dec n))"
proof -
  have "lines_of (verbose_emit r)
     = (''For container '' @ [CHR 0x27] @ container_name r @ [CHR 0x27] @ '':'')
         # map (\<lambda>p. [CHR 0x09] @ ''With an alignment of ''
                   @ (if fst p < 10 then CHR '' '' # dec (fst p) else dec (fst p))
                   @ '' is the base node size ''
                   @ (if snd p < 10 then CHR '' '' # dec (snd p) else dec (snd p)) @ ''.'')
             (node_sizes r)"
    unfolding verbose_emit_unlines
    by (rule lines_of_unlines) (use assms in \<open>auto simp: dec_no_newline\<close>)
  then show ?thesis
    by (simp add: case_prod_unfold dec_small dec_large)
qed

theorem verbose_emit_fields_witness:
  "CHR 0x0A \<notin> set (container_name sample_result)
   \<and> lines_of (verbose_emit sample_result)
     = [''For container '' @ [CHR 0x27] @ ''list'' @ [CHR 0x27] @ '':'',
        [CHR 0x09] @ ''With an alignment of  8 is the base node size 16.'',
        [CHR 0x09] @ ''With an alignment of 16 is the base node size 32.'']
   \<and> (8::nat) < 10 \<and> length (dec 8) = 1 \<and> (10::nat) \<le> 16 \<and> 2 \<le> length (dec 16)"
proof -
  have h: "CHR 0x0A \<notin> set (container_name sample_result)"
    by (simp add: sample_result_def)
  have d: "dec 8 = ''8''" "dec 16 = ''16''" "dec 32 = ''32''"
    by code_simp+
  from verbose_emit_fields [OF h, of 8] verbose_emit_fields [OF h, of 16] h show ?thesis
    by (simp add: sample_result_def d)
qed

end
